theory Spec2Isabelle
  imports Main
begin

section \<open>VoiceTools: per-guild settings\<close>

text \<open>
  Discord identifiers (of members, roles and channels) are Python integers.
\<close>

type_synonym snowflake = int

text \<open>
  The guild settings registered in \<open>VoiceTools.__init__\<close>: two switches and five lists
  of identifiers, stored as Python lists (order and repetitions are observable).
\<close>

record guild_conf =
  forcelimit_enabled :: bool
  forcelimit_ignore_member_list :: "snowflake list"
  forcelimit_ignore_role_list :: "snowflake list"
  forcelimit_ignore_vc_list :: "snowflake list"
  vip_enabled :: bool
  vip_member_list :: "snowflake list"
  vip_role_list :: "snowflake list"

definition default_guild :: guild_conf where
  "default_guild =
     \<lparr>forcelimit_enabled = False,
      forcelimit_ignore_member_list = [],
      forcelimit_ignore_role_list = [],
      forcelimit_ignore_vc_list = [],
      vip_enabled = False,
      vip_member_list = [],
      vip_role_list = []\<rparr>"

text \<open>
  The argument of a list command, after conversion by \<open>MemberOrRoleorVoiceChannel\<close>
  (or \<open>MemberOrRole\<close>, which yields the first two shapes only): the commands look at
  the class of the object and at its \<open>id\<close>.
\<close>

datatype target = Member snowflake | Role snowflake | VoiceChannel snowflake

text \<open>
  What a command sends to the invoking channel with \<open>ctx.send\<close>. Each constructor
  stands for one literal of the source:
  \<^item> \<open>AlreadyOnIgnoreList t\<close>: "\{ignore\} is already on ignore list";
  \<^item> \<open>NotOnIgnoreList t\<close>: "\{ignore\} is not on ignore list";
  \<^item> \<open>IgnoreListUpdated\<close>: "Ignore list updated";
  \<^item> \<open>AlreadyOnList t\<close>: "\{vip\} is already on list";
  \<^item> \<open>NotOnList t\<close>: "\{vip\} is not on list";
  \<^item> \<open>VipListUpdated\<close>: "VIP list updated";
  \<^item> the four \<open>Now\<close> and four \<open>Already\<close> constructors: "... module is now
    enabled/disabled on this server" and "... module is already enabled/disabled on this
    server".
\<close>

datatype message =
    AlreadyOnIgnoreList target
  | NotOnIgnoreList target
  | IgnoreListUpdated
  | AlreadyOnList target
  | NotOnList target
  | VipListUpdated
  | ForceLimitNowEnabled
  | ForceLimitAlreadyEnabled
  | ForceLimitNowDisabled
  | ForceLimitAlreadyDisabled
  | VipNowEnabled
  | VipAlreadyEnabled
  | VipNowDisabled
  | VipAlreadyDisabled

subsection \<open>Switches\<close>

definition forcelimit_enable :: "guild_conf \<Rightarrow> guild_conf \<times> message list" where
  "forcelimit_enable conf =
     (if \<not> forcelimit_enabled conf
      then (conf\<lparr>forcelimit_enabled := True\<rparr>, [ForceLimitNowEnabled])
      else (conf, [ForceLimitAlreadyEnabled]))"

definition forcelimit_disable :: "guild_conf \<Rightarrow> guild_conf \<times> message list" where
  "forcelimit_disable conf =
     (if forcelimit_enabled conf
      then (conf\<lparr>forcelimit_enabled := False\<rparr>, [ForceLimitNowDisabled])
      else (conf, [ForceLimitAlreadyDisabled]))"

definition vip_enable :: "guild_conf \<Rightarrow> guild_conf \<times> message list" where
  "vip_enable conf =
     (if \<not> vip_enabled conf
      then (conf\<lparr>vip_enabled := True\<rparr>, [VipNowEnabled])
      else (conf, [VipAlreadyEnabled]))"

definition vip_disable :: "guild_conf \<Rightarrow> guild_conf \<times> message list" where
  "vip_disable conf =
     (if vip_enabled conf
      then (conf\<lparr>vip_enabled := False\<rparr>, [VipNowDisabled])
      else (conf, [VipAlreadyDisabled]))"

subsection \<open>The ignore lists of ForceLimit\<close>

text \<open>
  The loop of \<open>forcelimit_add\<close> over its arguments. The three lists are the local
  lists read from the settings before the loop, \<open>out\<close> collects what is sent. A role goes
  to the role list, a member to the member list, anything else to the channel list; the
  membership test sees the list as the earlier iterations left it.
\<close>

fun forcelimit_add_loop ::
  "target list \<Rightarrow> snowflake list \<Rightarrow> snowflake list \<Rightarrow> snowflake list \<Rightarrow> message list
   \<Rightarrow> snowflake list \<times> snowflake list \<times> snowflake list \<times> message list" where
  "forcelimit_add_loop [] ignore_member_list ignore_role_list ignore_vc_list out =
     (ignore_member_list, ignore_role_list, ignore_vc_list, out)"
| "forcelimit_add_loop (Role i # ignores) ignore_member_list ignore_role_list ignore_vc_list out =
     (if i \<notin> set ignore_role_list
      then forcelimit_add_loop ignores ignore_member_list (ignore_role_list @ [i]) ignore_vc_list out
      else forcelimit_add_loop ignores ignore_member_list ignore_role_list ignore_vc_list
             (out @ [AlreadyOnIgnoreList (Role i)]))"
| "forcelimit_add_loop (Member i # ignores) ignore_member_list ignore_role_list ignore_vc_list out =
     (if i \<notin> set ignore_member_list
      then forcelimit_add_loop ignores (ignore_member_list @ [i]) ignore_role_list ignore_vc_list out
      else forcelimit_add_loop ignores ignore_member_list ignore_role_list ignore_vc_list
             (out @ [AlreadyOnIgnoreList (Member i)]))"
| "forcelimit_add_loop (VoiceChannel i # ignores) ignore_member_list ignore_role_list ignore_vc_list out =
     (if i \<notin> set ignore_vc_list
      then forcelimit_add_loop ignores ignore_member_list ignore_role_list (ignore_vc_list @ [i]) out
      else forcelimit_add_loop ignores ignore_member_list ignore_role_list ignore_vc_list
             (out @ [AlreadyOnIgnoreList (VoiceChannel i)]))"

definition forcelimit_add :: "guild_conf \<Rightarrow> target list \<Rightarrow> guild_conf \<times> message list" where
  "forcelimit_add conf ignores =
     (case forcelimit_add_loop ignores (forcelimit_ignore_member_list conf)
             (forcelimit_ignore_role_list conf) (forcelimit_ignore_vc_list conf) [] of
        (ignore_member_list, ignore_role_list, ignore_vc_list, out) \<Rightarrow>
          (conf\<lparr>forcelimit_ignore_member_list := ignore_member_list,
                forcelimit_ignore_role_list := ignore_role_list,
                forcelimit_ignore_vc_list := ignore_vc_list\<rparr>,
           out @ [IgnoreListUpdated]))"

text \<open>
  \<open>list.remove(x)\<close> deletes the first occurrence of \<open>x\<close> and raises \<open>ValueError\<close>
  when there is none; \<open>forcelimit_remove\<close> catches the error and sends a message.
\<close>

fun forcelimit_remove_loop ::
  "target list \<Rightarrow> snowflake list \<Rightarrow> snowflake list \<Rightarrow> snowflake list \<Rightarrow> message list
   \<Rightarrow> snowflake list \<times> snowflake list \<times> snowflake list \<times> message list" where
  "forcelimit_remove_loop [] ignore_member_list ignore_role_list ignore_vc_list out =
     (ignore_member_list, ignore_role_list, ignore_vc_list, out)"
| "forcelimit_remove_loop (Role i # ignores) ignore_member_list ignore_role_list ignore_vc_list out =
     (if i \<in> set ignore_role_list
      then forcelimit_remove_loop ignores ignore_member_list (remove1 i ignore_role_list)
             ignore_vc_list out
      else forcelimit_remove_loop ignores ignore_member_list ignore_role_list ignore_vc_list
             (out @ [NotOnIgnoreList (Role i)]))"
| "forcelimit_remove_loop (Member i # ignores) ignore_member_list ignore_role_list ignore_vc_list out =
     (if i \<in> set ignore_member_list
      then forcelimit_remove_loop ignores (remove1 i ignore_member_list) ignore_role_list
             ignore_vc_list out
      else forcelimit_remove_loop ignores ignore_member_list ignore_role_list ignore_vc_list
             (out @ [NotOnIgnoreList (Member i)]))"
| "forcelimit_remove_loop (VoiceChannel i # ignores) ignore_member_list ignore_role_list ignore_vc_list out =
     (if i \<in> set ignore_vc_list
      then forcelimit_remove_loop ignores ignore_member_list ignore_role_list
             (remove1 i ignore_vc_list) out
      else forcelimit_remove_loop ignores ignore_member_list ignore_role_list ignore_vc_list
             (out @ [NotOnIgnoreList (VoiceChannel i)]))"

definition forcelimit_remove :: "guild_conf \<Rightarrow> target list \<Rightarrow> guild_conf \<times> message list" where
  "forcelimit_remove conf ignores =
     (case forcelimit_remove_loop ignores (forcelimit_ignore_member_list conf)
             (forcelimit_ignore_role_list conf) (forcelimit_ignore_vc_list conf) [] of
        (ignore_member_list, ignore_role_list, ignore_vc_list, out) \<Rightarrow>
          (conf\<lparr>forcelimit_ignore_member_list := ignore_member_list,
                forcelimit_ignore_role_list := ignore_role_list,
                forcelimit_ignore_vc_list := ignore_vc_list\<rparr>,
           out @ [IgnoreListUpdated]))"

subsection \<open>The VIP lists\<close>

text \<open>
  \<open>vip_add\<close> and \<open>vip_remove\<close> test for a role only: every other argument goes to the
  member list (the converter \<open>MemberOrRole\<close> produces members and roles).
\<close>

fun vip_add_loop ::
  "target list \<Rightarrow> snowflake list \<Rightarrow> snowflake list \<Rightarrow> message list
   \<Rightarrow> snowflake list \<times> snowflake list \<times> message list" where
  "vip_add_loop [] member_list role_list out = (member_list, role_list, out)"
| "vip_add_loop (Role i # vips) member_list role_list out =
     (if i \<notin> set role_list
      then vip_add_loop vips member_list (role_list @ [i]) out
      else vip_add_loop vips member_list role_list (out @ [AlreadyOnList (Role i)]))"
| "vip_add_loop (Member i # vips) member_list role_list out =
     (if i \<notin> set member_list
      then vip_add_loop vips (member_list @ [i]) role_list out
      else vip_add_loop vips member_list role_list (out @ [AlreadyOnList (Member i)]))"
| "vip_add_loop (VoiceChannel i # vips) member_list role_list out =
     (if i \<notin> set member_list
      then vip_add_loop vips (member_list @ [i]) role_list out
      else vip_add_loop vips member_list role_list
             (out @ [AlreadyOnList (VoiceChannel i)]))"

definition vip_add :: "guild_conf \<Rightarrow> target list \<Rightarrow> guild_conf \<times> message list" where
  "vip_add conf vips =
     (case vip_add_loop vips (vip_member_list conf) (vip_role_list conf) [] of
        (members', roles', out) \<Rightarrow>
          (conf\<lparr>vip_member_list := members', vip_role_list := roles'\<rparr>,
           out @ [VipListUpdated]))"

fun vip_remove_loop ::
  "target list \<Rightarrow> snowflake list \<Rightarrow> snowflake list \<Rightarrow> message list
   \<Rightarrow> snowflake list \<times> snowflake list \<times> message list" where
  "vip_remove_loop [] member_list role_list out = (member_list, role_list, out)"
| "vip_remove_loop (Role i # vips) member_list role_list out =
     (if i \<in> set role_list
      then vip_remove_loop vips member_list (remove1 i role_list) out
      else vip_remove_loop vips member_list role_list (out @ [NotOnList (Role i)]))"
| "vip_remove_loop (Member i # vips) member_list role_list out =
     (if i \<in> set member_list
      then vip_remove_loop vips (remove1 i member_list) role_list out
      else vip_remove_loop vips member_list role_list (out @ [NotOnList (Member i)]))"
| "vip_remove_loop (VoiceChannel i # vips) member_list role_list out =
     (if i \<in> set member_list
      then vip_remove_loop vips (remove1 i member_list) role_list out
      else vip_remove_loop vips member_list role_list
             (out @ [NotOnList (VoiceChannel i)]))"

definition vip_remove :: "guild_conf \<Rightarrow> target list \<Rightarrow> guild_conf \<times> message list" where
  "vip_remove conf vips =
     (case vip_remove_loop vips (vip_member_list conf) (vip_role_list conf) [] of
        (members', roles', out) \<Rightarrow>
          (conf\<lparr>vip_member_list := members', vip_role_list := roles'\<rparr>,
           out @ [VipListUpdated]))"

subsection \<open>Sequences of owner commands\<close>

datatype command =
    ForceLimitEnable
  | ForceLimitDisable
  | ForceLimitIgnore "target list"
  | ForceLimitUnignore "target list"
  | VipEnable
  | VipDisable
  | VipAdd "target list"
  | VipRemove "target list"

fun run_command :: "command \<Rightarrow> guild_conf \<Rightarrow> guild_conf" where
  "run_command ForceLimitEnable conf = fst (forcelimit_enable conf)"
| "run_command ForceLimitDisable conf = fst (forcelimit_disable conf)"
| "run_command (ForceLimitIgnore ts) conf = fst (forcelimit_add conf ts)"
| "run_command (ForceLimitUnignore ts) conf = fst (forcelimit_remove conf ts)"
| "run_command VipEnable conf = fst (vip_enable conf)"
| "run_command VipDisable conf = fst (vip_disable conf)"
| "run_command (VipAdd ts) conf = fst (vip_add conf ts)"
| "run_command (VipRemove ts) conf = fst (vip_remove conf ts)"

fun run_commands :: "command list \<Rightarrow> guild_conf \<Rightarrow> guild_conf" where
  "run_commands [] conf = conf"
| "run_commands (c # cs) conf = run_commands cs (run_command c conf)"

definition lists_distinct :: "guild_conf \<Rightarrow> bool" where
  "lists_distinct conf \<longleftrightarrow>
     distinct (forcelimit_ignore_member_list conf) \<and>
     distinct (forcelimit_ignore_role_list conf) \<and>
     distinct (forcelimit_ignore_vc_list conf) \<and>
     distinct (vip_member_list conf) \<and>
     distinct (vip_role_list conf)"

section \<open>Voice-state events\<close>

text \<open>
  The part of the host (discord.py) that the event handler touches. A voice channel is a
  live object shared by the voice states that name it; it is kept here in a store indexed
  by the channel's identifier, so that \<open>before.channel is not after.channel\<close> is the
  inequality of two optional identifiers.
  \<^item> \<open>user_limit h c\<close> and \<open>members h c\<close> are the attributes \<open>channel.user_limit\<close> and
    \<open>channel.members\<close> of the live object;
  \<^item> \<open>guild_channels h\<close> are the channels that exist on the guild;
  \<^item> \<open>calls h\<close> is the sequence of requests sent to the host so far.
\<close>

datatype call =
    Edit snowflake int
  | CreateVoiceChannel
  | MoveTo snowflake snowflake
  | Delete snowflake

record host =
  user_limit :: "snowflake \<Rightarrow> int"
  members :: "snowflake \<Rightarrow> snowflake list"
  guild_channels :: "snowflake set"
  calls :: "call list"

text \<open>
  A request to the host is awaited and may raise (\<open>discord.NotFound\<close>,
  \<open>discord.Forbidden\<close>, \<open>discord.HTTPException\<close>). The handler performs each request at
  most once per event, so the host's answers are given per request.
\<close>

datatype error = NotFound | Forbidden | HTTPException | AttributeError

record answers =
  edit_error :: "snowflake \<Rightarrow> error option"
  create_result :: "error + snowflake"
  move_error :: "error option"
  delete_error :: "error option"

record member =
  member_id :: snowflake
  roles :: "snowflake list"

text \<open>
  A procedure returns the exception it raised, if any, and the host as it left it.
\<close>

type_synonym outcome = "error option \<times> host"

definition and_then :: "outcome \<Rightarrow> (host \<Rightarrow> outcome) \<Rightarrow> outcome" where
  "and_then r k = (case r of (Some e, h) \<Rightarrow> (Some e, h) | (None, h) \<Rightarrow> k h)"

text \<open>
  \<open>channel.edit(user_limit=n)\<close>: on success discord.py writes the answer of the host into
  the live channel object, which the later reads of the same event see.
\<close>

definition edit :: "answers \<Rightarrow> snowflake \<Rightarrow> int \<Rightarrow> host \<Rightarrow> outcome" where
  "edit a c n h =
     (let h1 = h\<lparr>calls := calls h @ [Edit c n]\<rparr> in
      case edit_error a c of
        Some e \<Rightarrow> (Some e, h1)
      | None \<Rightarrow> (None, h1\<lparr>user_limit := (user_limit h1)(c := n)\<rparr>))"

text \<open>
  \<open>guild.create_voice_channel(...)\<close>: on success a new channel, without a user limit and
  without occupants, exists on the guild.
\<close>

definition create_voice_channel :: "answers \<Rightarrow> host \<Rightarrow> (error + snowflake) \<times> host" where
  "create_voice_channel a h =
     (let h1 = h\<lparr>calls := calls h @ [CreateVoiceChannel]\<rparr> in
      case create_result a of
        Inl e \<Rightarrow> (Inl e, h1)
      | Inr vc \<Rightarrow>
          (Inr vc, h1\<lparr>user_limit := (user_limit h1)(vc := 0),
                       members := (members h1)(vc := []),
                       guild_channels := insert vc (guild_channels h1)\<rparr>))"

text \<open>
  \<open>member.move_to(vc)\<close>: the new voice state of the member arrives as a later event, the
  live objects are not changed by the request itself.
\<close>

definition move_to :: "answers \<Rightarrow> member \<Rightarrow> snowflake \<Rightarrow> host \<Rightarrow> outcome" where
  "move_to a m vc h =
     (let h1 = h\<lparr>calls := calls h @ [MoveTo (member_id m) vc]\<rparr> in
      case move_error a of Some e \<Rightarrow> (Some e, h1) | None \<Rightarrow> (None, h1))"

definition delete :: "answers \<Rightarrow> snowflake \<Rightarrow> host \<Rightarrow> outcome" where
  "delete a vc h =
     (let h1 = h\<lparr>calls := calls h @ [Delete vc]\<rparr> in
      case delete_error a of
        Some e \<Rightarrow> (Some e, h1)
      | None \<Rightarrow> (None, h1\<lparr>guild_channels := guild_channels h1 - {vc}\<rparr>))"

subsection \<open>The VIP module\<close>

text \<open>
  \<open>_vip_check\<close>. The two \<open>log.info\<close> lines (which name the member, or else the first
  matching role) have no effect on the host and are left out.
\<close>

definition vip_check ::
  "guild_conf \<Rightarrow> answers \<Rightarrow> member \<Rightarrow> snowflake option \<Rightarrow> snowflake option \<Rightarrow> host \<Rightarrow> outcome" where
  "vip_check conf a m before after h =
     (if before \<noteq> after then
        let member_on_list = member_id m \<in> set (vip_member_list conf);
            role_list = filter (\<lambda>role. role \<in> set (vip_role_list conf)) (roles m)
        in
          if member_on_list \<or> role_list \<noteq> [] then
            and_then
              (case before of
                 None \<Rightarrow> (None, h)
               | Some c \<Rightarrow>
                   if user_limit h c \<noteq> 0 then edit a c (user_limit h c - 1) h else (None, h))
              (\<lambda>h1. case after of
                 None \<Rightarrow> (None, h1)
               | Some c \<Rightarrow>
                   if user_limit h1 c \<noteq> 0 then edit a c (user_limit h1 c + 1) h1 else (None, h1))
          else (None, h)
      else (None, h))"

subsection \<open>The ForceLimit module\<close>

text \<open>
  \<open>_forcelimit_check\<close>. The permission overwrites of the temporary channel and the final
  \<open>log.info\<close> line are left out.
\<close>

definition forcelimit_check ::
  "guild_conf \<Rightarrow> answers \<Rightarrow> member \<Rightarrow> snowflake option \<Rightarrow> snowflake option \<Rightarrow> host \<Rightarrow> outcome" where
  "forcelimit_check conf a m before after h =
     (case after of
        None \<Rightarrow> (None, h)
      | Some channel \<Rightarrow>
          if user_limit h channel \<noteq> 0 \<and> int (length (members h channel)) > user_limit h channel
          then
            if member_id m \<in> set (forcelimit_ignore_member_list conf)
               \<or> list_ex (\<lambda>role. role \<in> set (forcelimit_ignore_role_list conf)) (roles m)
               \<or> channel \<in> set (forcelimit_ignore_vc_list conf)
            then (None, h)
            else
              (case create_voice_channel a h of
                 (Inl e, h1) \<Rightarrow> (Some e, h1)
               | (Inr vc, h1) \<Rightarrow> and_then (move_to a m vc h1) (delete a vc))
          else (None, h))"

subsection \<open>The listener\<close>

definition on_voice_state_update ::
  "guild_conf \<Rightarrow> answers \<Rightarrow> member \<Rightarrow> snowflake option \<Rightarrow> snowflake option \<Rightarrow> host \<Rightarrow> outcome" where
  "on_voice_state_update conf a m before after h =
     and_then
       (if vip_enabled conf then vip_check conf a m before after h else (None, h))
       (\<lambda>h1. if forcelimit_enabled conf then forcelimit_check conf a m before after h1
              else (None, h1))"

text \<open>
  The requests made during a run that started in \<open>h\<close>, and the host's answer to a request.
\<close>

definition requests :: "host \<Rightarrow> outcome \<Rightarrow> call list" where
  "requests h r = drop (length (calls h)) (calls (snd r))"

fun is_edit :: "call \<Rightarrow> bool" where
  "is_edit (Edit c n) = True"
| "is_edit _ = False"

fun answer_of :: "answers \<Rightarrow> call \<Rightarrow> error option" where
  "answer_of a (Edit c n) = edit_error a c"
| "answer_of a CreateVoiceChannel = (case create_result a of Inl e \<Rightarrow> Some e | Inr vc \<Rightarrow> None)"
| "answer_of a (MoveTo m vc) = move_error a"
| "answer_of a (Delete vc) = delete_error a"

text \<open>
  What one request does to the host: it is recorded, and when the host answers it without
  error it takes effect (an edit sets the user limit of the live channel, a creation adds
  the new channel to the guild, a deletion removes the channel; a move changes no live
  object).
\<close>

fun perform :: "answers \<Rightarrow> call \<Rightarrow> host \<Rightarrow> host" where
  "perform a (Edit c n) h =
     (if edit_error a c = None
      then h\<lparr>user_limit := (user_limit h)(c := n), calls := calls h @ [Edit c n]\<rparr>
      else h\<lparr>calls := calls h @ [Edit c n]\<rparr>)"
| "perform a CreateVoiceChannel h =
     (case create_result a of
        Inl e \<Rightarrow> h\<lparr>calls := calls h @ [CreateVoiceChannel]\<rparr>
      | Inr vc \<Rightarrow>
          h\<lparr>user_limit := (user_limit h)(vc := 0),
            members := (members h)(vc := []),
            guild_channels := insert vc (guild_channels h),
            calls := calls h @ [CreateVoiceChannel]\<rparr>)"
| "perform a (MoveTo i vc) h = h\<lparr>calls := calls h @ [MoveTo i vc]\<rparr>"
| "perform a (Delete vc) h =
     (if delete_error a = None
      then h\<lparr>guild_channels := guild_channels h - {vc}, calls := calls h @ [Delete vc]\<rparr>
      else h\<lparr>calls := calls h @ [Delete vc]\<rparr>)"

section \<open>Listing the lists\<close>

text \<open>
  The guild's cache, as the listing commands use it: \<open>guild.get_member\<close>,
  \<open>guild.get_role\<close> and \<open>guild.get_channel\<close> return the object with that identifier, or
  \<open>None\<close> when the guild has no such object (a member who left, a deleted role or channel).
  Of the object only its \<open>mention\<close> string is read.
\<close>

record guild =
  get_member :: "snowflake \<Rightarrow> string option"
  get_role :: "snowflake \<Rightarrow> string option"
  get_channel :: "snowflake \<Rightarrow> string option"

text \<open>
  \<open>[m.mention for m in map(get, ids)]\<close>: reading \<open>mention\<close> from \<open>None\<close> raises
  \<open>AttributeError\<close>.
\<close>

fun mentions :: "(snowflake \<Rightarrow> string option) \<Rightarrow> snowflake list \<Rightarrow> error + string list" where
  "mentions get [] = Inr []"
| "mentions get (i # ids) =
     (case get i of
        None \<Rightarrow> Inl AttributeError
      | Some mention \<Rightarrow>
          (case mentions get ids of Inl e \<Rightarrow> Inl e | Inr rest \<Rightarrow> Inr (mention # rest)))"

text \<open>\<open>sep.join(xs)\<close>.\<close>

fun join :: "string \<Rightarrow> string list \<Rightarrow> string" where
  "join sep [] = []"
| "join sep [x] = x"
| "join sep (x # y # ys) = x @ sep @ join sep (y # ys)"

text \<open>
  \<open>itertools.zip_longest(..., fillvalue=fill)\<close> for two and for three lists: as many tuples
  as the longest list has elements, the shorter lists continued with \<open>fill\<close>.
\<close>

definition nth_or :: "'a \<Rightarrow> 'a list \<Rightarrow> nat \<Rightarrow> 'a" where
  "nth_or fill xs i = (if i < length xs then xs ! i else fill)"

definition zip_longest2 :: "'a \<Rightarrow> 'a list \<Rightarrow> 'a list \<Rightarrow> ('a \<times> 'a) list" where
  "zip_longest2 fill xs ys =
     map (\<lambda>i. (nth_or fill xs i, nth_or fill ys i)) [0 ..< max (length xs) (length ys)]"

definition zip_longest3 :: "'a \<Rightarrow> 'a list \<Rightarrow> 'a list \<Rightarrow> 'a list \<Rightarrow> ('a \<times> 'a \<times> 'a) list" where
  "zip_longest3 fill xs ys zs =
     map (\<lambda>i. (nth_or fill xs i, nth_or fill ys i, nth_or fill zs i))
       [0 ..< max (length xs) (max (length ys) (length zs))]"

text \<open>
  An embed with its title, its fields (name and value, in \<open>embed_fields\<close>) and the two numbers of its footer
  "Page num/total"; the colour is left out. A command either sends a text or opens a menu
  of embeds.
\<close>

record embed =
  title :: string
  embed_fields :: "(string \<times> string) list"
  footer :: "nat \<times> nat"

datatype reply = Send string | Menu "embed list"

text \<open>
  \<open>forcelimit_ignorelist\<close> and \<open>vip_list\<close>. The function \<open>pagify\<close> of
  \<open>redbot.core.utils.chat_formatting\<close> is not part of this repository: it is a parameter,
  applied to the text and the \<open>page_length\<close>.
\<close>

definition forcelimit_ignorelist ::
  "(string \<Rightarrow> nat \<Rightarrow> string list) \<Rightarrow> guild \<Rightarrow> guild_conf \<Rightarrow> error + reply" where
  "forcelimit_ignorelist pagify g conf =
     (case mentions (get_member g) (forcelimit_ignore_member_list conf) of
        Inl e \<Rightarrow> Inl e
      | Inr member_mentions \<Rightarrow>
     (case mentions (get_role g) (forcelimit_ignore_role_list conf) of
        Inl e \<Rightarrow> Inl e
      | Inr role_mentions \<Rightarrow>
     (case mentions (get_channel g) (forcelimit_ignore_vc_list conf) of
        Inl e \<Rightarrow> Inl e
      | Inr vc_mentions \<Rightarrow>
          let pages_members = pagify (join '', '' member_mentions) 1024;
              pages_roles = pagify (join '', '' role_mentions) 1024;
              pages_vcs = pagify (join '', '' vc_mentions) 1024
          in
            if length pages_members = length pages_roles
               \<and> length pages_roles = length pages_vcs \<and> length pages_vcs = 0
            then Inr (Send ''Ignore list is empty'')
            else
              let pages = zip_longest3 ''None'' pages_members pages_roles pages_vcs;
                  len_pages = length pages
              in Inr (Menu (map (\<lambda>(idx, page).
                      \<lparr>title = ''Ignore List'',
                       embed_fields = [(''Members'', fst page), (''Roles'', fst (snd page)),
                                 (''Voice channels'', snd (snd page))],
                       footer = (idx, len_pages)\<rparr>)
                    (zip [1 ..< Suc len_pages] pages))))))"

definition vip_list ::
  "(string \<Rightarrow> nat \<Rightarrow> string list) \<Rightarrow> guild \<Rightarrow> guild_conf \<Rightarrow> error + reply" where
  "vip_list pagify g conf =
     (case mentions (get_member g) (vip_member_list conf) of
        Inl e \<Rightarrow> Inl e
      | Inr member_mentions \<Rightarrow>
     (case mentions (get_role g) (vip_role_list conf) of
        Inl e \<Rightarrow> Inl e
      | Inr role_mentions \<Rightarrow>
          let pages_members = pagify (join '', '' member_mentions) 1024;
              pages_roles = pagify (join '', '' role_mentions) 1024
          in
            if length pages_members = length pages_roles \<and> length pages_roles = 0
            then Inr (Send ''VIP list is empty'')
            else
              let pages = zip_longest2 ''None'' pages_members pages_roles;
                  len_pages = length pages
              in Inr (Menu (map (\<lambda>(idx, page).
                      \<lparr>title = ''VIP List'',
                       embed_fields = [(''Members'', fst page), (''Roles'', snd page)],
                       footer = (idx, len_pages)\<rparr>)
                    (zip [1 ..< Suc len_pages] pages)))))"

section \<open>Sample hosts\<close>

text \<open>
  A host that accepts every request and gives the new channel the identifier \<open>vc\<close>, and a
  guild with the two voice channels 1 and 2.
\<close>

definition all_succeed :: "snowflake \<Rightarrow> answers" where
  "all_succeed vc =
     \<lparr>edit_error = (\<lambda>c. None), create_result = Inr vc, move_error = None, delete_error = None\<rparr>"

definition two_channels :: "int \<Rightarrow> snowflake list \<Rightarrow> int \<Rightarrow> snowflake list \<Rightarrow> host" where
  "two_channels limit1 members1 limit2 members2 =
     \<lparr>user_limit = (\<lambda>c. if c = 1 then limit1 else if c = 2 then limit2 else 0),
      members = (\<lambda>c. if c = 1 then members1 else if c = 2 then members2 else []),
      guild_channels = {1, 2},
      calls = []\<rparr>"

text \<open>The same host, except that channel 2 has vanished: editing it raises \<open>NotFound\<close>.\<close>

definition channel_2_vanished :: answers where
  "channel_2_vanished =
     (all_succeed 99)\<lparr>edit_error := (\<lambda>c. if c = 2 then Some NotFound else None)\<rparr>"

text \<open>The same host, except that it refuses to edit channel 1.\<close>

definition channel_1_forbidden :: answers where
  "channel_1_forbidden =
     (all_succeed 99)\<lparr>edit_error := (\<lambda>c. if c = 1 then Some Forbidden else None)\<rparr>"

text \<open>
  A guild that knows member 10, role 20 and voice channel 30 and nothing else, and a pager
  that cuts a text into pieces of at most \<open>page_length\<close> characters (none for the empty
  text).
\<close>

definition small_guild :: guild where
  "small_guild =
     \<lparr>get_member = (\<lambda>i. if i = 10 then Some ''<@10>'' else None),
      get_role = (\<lambda>i. if i = 20 then Some ''<@&20>'' else None),
      get_channel = (\<lambda>i. if i = 30 then Some ''<#30>'' else None)\<rparr>"

definition one_page :: "string \<Rightarrow> nat \<Rightarrow> string list" where
  "one_page text page_length = (if text = [] then [] else [take page_length text])"

section \<open>Properties of the list commands\<close>

subsection \<open>No list ever holds an identifier twice\<close>

lemma forcelimit_add_loop_distinct:
  "distinct ml \<Longrightarrow> distinct rl \<Longrightarrow> distinct vl \<Longrightarrow>
   forcelimit_add_loop ts ml rl vl out = (ml', rl', vl', out') \<Longrightarrow>
   distinct ml' \<and> distinct rl' \<and> distinct vl'"
  by (induction ts ml rl vl out rule: forcelimit_add_loop.induct) (auto split: if_splits)

lemma forcelimit_remove_loop_distinct:
  "distinct ml \<Longrightarrow> distinct rl \<Longrightarrow> distinct vl \<Longrightarrow>
   forcelimit_remove_loop ts ml rl vl out = (ml', rl', vl', out') \<Longrightarrow>
   distinct ml' \<and> distinct rl' \<and> distinct vl'"
  by (induction ts ml rl vl out rule: forcelimit_remove_loop.induct) (auto split: if_splits)

lemma vip_add_loop_distinct:
  "distinct ml \<Longrightarrow> distinct rl \<Longrightarrow>
   vip_add_loop ts ml rl out = (ml', rl', out') \<Longrightarrow> distinct ml' \<and> distinct rl'"
  by (induction ts ml rl out rule: vip_add_loop.induct) (auto split: if_splits)

lemma vip_remove_loop_distinct:
  "distinct ml \<Longrightarrow> distinct rl \<Longrightarrow>
   vip_remove_loop ts ml rl out = (ml', rl', out') \<Longrightarrow> distinct ml' \<and> distinct rl'"
  by (induction ts ml rl out rule: vip_remove_loop.induct) (auto split: if_splits)

lemma run_command_distinct: "lists_distinct conf \<Longrightarrow> lists_distinct (run_command c conf)"
proof (cases c)
  case (ForceLimitIgnore ts)
  obtain ml rl vl out where l: "forcelimit_add_loop ts (forcelimit_ignore_member_list conf)
     (forcelimit_ignore_role_list conf) (forcelimit_ignore_vc_list conf) [] = (ml, rl, vl, out)"
    by (metis prod_cases4)
  assume "lists_distinct conf"
  with forcelimit_add_loop_distinct [OF _ _ _ l] ForceLimitIgnore l show ?thesis
    by (simp add: lists_distinct_def forcelimit_add_def)
next
  case (ForceLimitUnignore ts)
  obtain ml rl vl out where l: "forcelimit_remove_loop ts (forcelimit_ignore_member_list conf)
     (forcelimit_ignore_role_list conf) (forcelimit_ignore_vc_list conf) [] = (ml, rl, vl, out)"
    by (metis prod_cases4)
  assume "lists_distinct conf"
  with forcelimit_remove_loop_distinct [OF _ _ _ l] ForceLimitUnignore l show ?thesis
    by (simp add: lists_distinct_def forcelimit_remove_def)
next
  case (VipAdd ts)
  obtain ml rl out where l: "vip_add_loop ts (vip_member_list conf) (vip_role_list conf) [] = (ml, rl, out)"
    by (metis prod_cases3)
  assume "lists_distinct conf"
  with vip_add_loop_distinct [OF _ _ l] VipAdd l show ?thesis
    by (simp add: lists_distinct_def vip_add_def)
next
  case (VipRemove ts)
  obtain ml rl out where l: "vip_remove_loop ts (vip_member_list conf) (vip_role_list conf) [] = (ml, rl, out)"
    by (metis prod_cases3)
  assume "lists_distinct conf"
  with vip_remove_loop_distinct [OF _ _ l] VipRemove l show ?thesis
    by (simp add: lists_distinct_def vip_remove_def)
qed (simp_all add: lists_distinct_def forcelimit_enable_def forcelimit_disable_def
       vip_enable_def vip_disable_def)

lemma run_commands_distinct: "lists_distinct conf \<Longrightarrow> lists_distinct (run_commands cs conf)"
  by (induction cs arbitrary: conf) (simp_all add: run_command_distinct)

text \<open>
  C10. Starting from the registered defaults, after any sequence of owner commands (each
  list command with any number of arguments, repeated or not) none of the five lists of
  the guild holds an identifier twice.
\<close>

theorem lists_never_hold_duplicates: "lists_distinct (run_commands cs default_guild)"
  by (rule run_commands_distinct) (simp add: lists_distinct_def default_guild_def)

subsection \<open>Adding an identifier\<close>







subsection \<open>Adding, then removing\<close>

text \<open>
  C3, as amended. For each of the five lists: adding an identifier that is not on the list
  and then removing it gives back the settings exactly, order included. When the identifier
  was on the list already, the addition changes nothing and the removal deletes its (first)
  occurrence, so the list comes back without that identifier.
\<close>

theorem add_then_remove:
  "fst (forcelimit_remove (fst (forcelimit_add conf [Member i])) [Member i]) =
     (if i \<in> set (forcelimit_ignore_member_list conf)
      then conf\<lparr>forcelimit_ignore_member_list := remove1 i (forcelimit_ignore_member_list conf)\<rparr>
      else conf)
   \<and> fst (forcelimit_remove (fst (forcelimit_add conf [Role i])) [Role i]) =
     (if i \<in> set (forcelimit_ignore_role_list conf)
      then conf\<lparr>forcelimit_ignore_role_list := remove1 i (forcelimit_ignore_role_list conf)\<rparr>
      else conf)
   \<and> fst (forcelimit_remove (fst (forcelimit_add conf [VoiceChannel i])) [VoiceChannel i]) =
     (if i \<in> set (forcelimit_ignore_vc_list conf)
      then conf\<lparr>forcelimit_ignore_vc_list := remove1 i (forcelimit_ignore_vc_list conf)\<rparr>
      else conf)
   \<and> fst (vip_remove (fst (vip_add conf [Member i])) [Member i]) =
     (if i \<in> set (vip_member_list conf)
      then conf\<lparr>vip_member_list := remove1 i (vip_member_list conf)\<rparr>
      else conf)
   \<and> fst (vip_remove (fst (vip_add conf [Role i])) [Role i]) =
     (if i \<in> set (vip_role_list conf)
      then conf\<lparr>vip_role_list := remove1 i (vip_role_list conf)\<rparr>
      else conf)"
  by (simp add: forcelimit_add_def forcelimit_remove_def vip_add_def vip_remove_def
        remove1_append)

theorem add_then_remove_witness:
  "fst (forcelimit_remove (fst (forcelimit_add (default_guild\<lparr>forcelimit_ignore_vc_list := [7, 3]\<rparr>)
          [VoiceChannel 5])) [VoiceChannel 5]) = default_guild\<lparr>forcelimit_ignore_vc_list := [7, 3]\<rparr>
   \<and> fst (vip_remove (fst (vip_add (default_guild\<lparr>vip_role_list := [7, 3]\<rparr>) [Role 7])) [Role 7]) =
       default_guild\<lparr>vip_role_list := [3]\<rparr>"
  using add_then_remove [of "default_guild\<lparr>forcelimit_ignore_vc_list := [7, 3]\<rparr>" 5]
        add_then_remove [of "default_guild\<lparr>vip_role_list := [7, 3]\<rparr>" 7]
  by (simp add: default_guild_def)

text \<open>
  The round trip as claimed for an identifier that was present: the list \<open>[1, 2]\<close> does not
  come back.
\<close>

theorem add_then_remove_counterexample:
  "fst (forcelimit_remove
          (fst (forcelimit_add (default_guild\<lparr>forcelimit_ignore_member_list := [1, 2]\<rparr>) [Member 1]))
          [Member 1])
   \<noteq> default_guild\<lparr>forcelimit_ignore_member_list := [1, 2]\<rparr>"
  by (simp add: forcelimit_add_def forcelimit_remove_def default_guild_def)

section \<open>Properties of the listener\<close>

subsection \<open>The requests of each step\<close>

lemmas host_call_defs = edit_def create_voice_channel_def move_to_def delete_def and_then_def
  requests_def Let_def

lemmas run_defs = on_voice_state_update_def vip_check_def forcelimit_check_def edit_def
  create_voice_channel_def move_to_def delete_def and_then_def requests_def Let_def
  all_succeed_def two_channels_def default_guild_def

lemma requests_same: "requests h (e, h) = []"
  by (simp add: requests_def)

lemma requests_forcelimit_check:
  "requests h (forcelimit_check conf a m before after h) =
     (case after of
        None \<Rightarrow> []
      | Some channel \<Rightarrow>
          if user_limit h channel \<noteq> 0
             \<and> int (length (members h channel)) > user_limit h channel
             \<and> member_id m \<notin> set (forcelimit_ignore_member_list conf)
             \<and> \<not> (\<exists>role \<in> set (roles m). role \<in> set (forcelimit_ignore_role_list conf))
             \<and> channel \<notin> set (forcelimit_ignore_vc_list conf)
          then CreateVoiceChannel #
               (case create_result a of
                  Inl e \<Rightarrow> []
                | Inr vc \<Rightarrow> MoveTo (member_id m) vc #
                            (case move_error a of None \<Rightarrow> [Delete vc] | Some e \<Rightarrow> []))
          else [])"
  by (auto simp: forcelimit_check_def host_call_defs list_ex_iff
           split: option.splits sum.splits)

lemma vip_check_same: "vip_check conf a m c c h = (None, h)"
  by (simp add: vip_check_def)

lemma filter_requests_forcelimit:
  "filter is_edit (requests h (forcelimit_check conf a m before after h)) = []"
  by (auto simp: requests_forcelimit_check split: option.splits sum.splits)

lemma calls_forcelimit_check:
  "calls (snd (forcelimit_check conf a m before after h)) =
     calls h @ requests h (forcelimit_check conf a m before after h)"
  by (auto simp: forcelimit_check_def host_call_defs split: option.splits sum.splits)

lemma calls_vip_check':
  "calls (snd (vip_check conf a m before after h)) =
     calls h @ requests h (vip_check conf a m before after h)"
  by (auto simp: vip_check_def host_call_defs split: option.splits)

lemma requests_on_voice_state_update:
  "requests h (on_voice_state_update conf a m before after h) =
     requests h (if vip_enabled conf then vip_check conf a m before after h else (None, h)) @
     (case (if vip_enabled conf then vip_check conf a m before after h else (None, h)) of
        (Some e, h1) \<Rightarrow> []
      | (None, h1) \<Rightarrow>
          if forcelimit_enabled conf
          then requests h1 (forcelimit_check conf a m before after h1) else [])"
proof -
  obtain e h1 where v: "vip_check conf a m before after h = (e, h1)"
    by (cases "vip_check conf a m before after h")
  obtain rs1 where c1: "calls h1 = calls h @ rs1"
    using calls_vip_check' [of conf a m before after h] v by simp
  obtain rs2 where c2: "calls (snd (forcelimit_check conf a m before after h1)) = calls h1 @ rs2"
    using calls_forcelimit_check [of conf a m before after h1] by simp
  obtain rs3 where c3: "calls (snd (forcelimit_check conf a m before after h)) = calls h @ rs3"
    using calls_forcelimit_check [of conf a m before after h] by simp
  show ?thesis
  proof (cases "vip_enabled conf")
    case True
    show ?thesis
    proof (cases e)
      case None
      then show ?thesis using True v c1 c2
        by (simp add: on_voice_state_update_def and_then_def requests_def)
    next
      case (Some x)
      then show ?thesis using True v
        by (simp add: on_voice_state_update_def and_then_def requests_def)
    qed
  next
    case False
    then show ?thesis using c3
      by (simp add: on_voice_state_update_def and_then_def requests_def)
  qed
qed

lemma requests_vip_check:
  "requests h (vip_check conf a m before after h) =
     (if before \<noteq> after
         \<and> (member_id m \<in> set (vip_member_list conf)
            \<or> (\<exists>role \<in> set (roles m). role \<in> set (vip_role_list conf)))
      then (case before of
              None \<Rightarrow> []
            | Some x \<Rightarrow> if user_limit h x \<noteq> 0 then [Edit x (user_limit h x - 1)] else []) @
           (if \<exists>x. before = Some x \<and> user_limit h x \<noteq> 0 \<and> edit_error a x \<noteq> None then []
            else case after of
                   None \<Rightarrow> []
                 | Some y \<Rightarrow> if user_limit h y \<noteq> 0 then [Edit y (user_limit h y + 1)] else [])
      else [])"
  by (auto simp: vip_check_def host_call_defs filter_empty_conv split: option.splits)

lemma create_not_in_vip:
  "CreateVoiceChannel \<notin> set (requests h (vip_check conf a m before after h))"
  by (auto simp: requests_vip_check split: option.splits if_splits)

lemma not_edit_vip:
  "filter (\<lambda>c. \<not> is_edit c) (requests h (vip_check conf a m before after h)) = []"
  by (auto simp: requests_vip_check split: option.splits if_splits)

lemma create_in_forcelimit_iff:
  "CreateVoiceChannel \<in> set (requests h (forcelimit_check conf a m before after h)) \<longleftrightarrow>
     (\<exists>channel. after = Some channel
        \<and> user_limit h channel \<noteq> 0
        \<and> int (length (members h channel)) > user_limit h channel
        \<and> member_id m \<notin> set (forcelimit_ignore_member_list conf)
        \<and> \<not> (\<exists>role \<in> set (roles m). role \<in> set (forcelimit_ignore_role_list conf))
        \<and> channel \<notin> set (forcelimit_ignore_vc_list conf))"
  by (auto simp: requests_forcelimit_check split: option.splits)

lemma requests_forcelimit_shape:
  "requests h (forcelimit_check conf a m before after h) =
     (if CreateVoiceChannel \<in> set (requests h (forcelimit_check conf a m before after h))
      then CreateVoiceChannel #
           (case create_result a of
              Inl e \<Rightarrow> []
            | Inr vc \<Rightarrow> MoveTo (member_id m) vc #
                        (case move_error a of None \<Rightarrow> [Delete vc] | Some e \<Rightarrow> []))
      else [])"
  by (auto simp: requests_forcelimit_check split: option.splits)

lemma not_edit_forcelimit:
  "filter (\<lambda>c. \<not> is_edit c) (requests h (forcelimit_check conf a m before after h)) =
   requests h (forcelimit_check conf a m before after h)"
  by (auto simp: requests_forcelimit_check split: option.splits sum.splits)

lemma create_in_handler_iff:
  "CreateVoiceChannel \<in> set (requests h (on_voice_state_update conf a m before after h)) \<longleftrightarrow>
     forcelimit_enabled conf \<and>
     (\<exists>h1. (if vip_enabled conf then vip_check conf a m before after h else (None, h)) = (None, h1)
        \<and> CreateVoiceChannel \<in> set (requests h1 (forcelimit_check conf a m before after h1)))"
proof -
  obtain e h1 where
    v: "(if vip_enabled conf then vip_check conf a m before after h else (None, h)) = (e, h1)"
    by (cases "(if vip_enabled conf then vip_check conf a m before after h else (None, h))")
  have n: "CreateVoiceChannel \<notin> set (requests h (e, h1))"
    using v create_not_in_vip [of h conf a m before after]
    by (auto simp: requests_same split: if_splits)
  show ?thesis
    unfolding requests_on_voice_state_update v using n by (cases e) auto
qed

lemma not_edit_handler:
  "filter (\<lambda>c. \<not> is_edit c) (requests h (on_voice_state_update conf a m before after h)) =
     (if CreateVoiceChannel \<in> set (requests h (on_voice_state_update conf a m before after h))
      then CreateVoiceChannel #
           (case create_result a of
              Inl e \<Rightarrow> []
            | Inr vc \<Rightarrow> MoveTo (member_id m) vc #
                        (case move_error a of None \<Rightarrow> [Delete vc] | Some e \<Rightarrow> []))
      else [])"
proof -
  obtain e h1 where v: "(if vip_enabled conf then vip_check conf a m before after h else (None, h)) = (e, h1)"
    by (cases "(if vip_enabled conf then vip_check conf a m before after h else (None, h))")
  have n: "filter (\<lambda>c. \<not> is_edit c) (requests h (e, h1)) = []"
    using v not_edit_vip [of h conf a m before after] by (auto simp: requests_same split: if_splits)
  show ?thesis
  proof (cases "e = None \<and> forcelimit_enabled conf")
    case True
    have "filter (\<lambda>c. \<not> is_edit c) (requests h (on_voice_state_update conf a m before after h)) =
          requests h1 (forcelimit_check conf a m before after h1)"
      using True v n by (simp add: requests_on_voice_state_update not_edit_forcelimit)
    moreover have "CreateVoiceChannel \<in> set (requests h (on_voice_state_update conf a m before after h))
       \<longleftrightarrow> CreateVoiceChannel \<in> set (requests h1 (forcelimit_check conf a m before after h1))"
      using True v by (simp add: create_in_handler_iff)
    ultimately show ?thesis
      using requests_forcelimit_shape [of h1 conf a m before after] by simp
  next
    case False
    have "filter (\<lambda>c. \<not> is_edit c) (requests h (on_voice_state_update conf a m before after h)) = []"
      using False v n by (auto simp: requests_on_voice_state_update split: option.splits)
    moreover have "CreateVoiceChannel \<notin> set (requests h (on_voice_state_update conf a m before after h))"
      using False v by (auto simp: create_in_handler_iff)
    ultimately show ?thesis by simp
  qed
qed

subsection \<open>The VIP module\<close>

text \<open>
  C5. When the VIP module is disabled for the guild, the listener sends no request that
  changes a channel's user limit, whatever the event and the VIP lists are.
\<close>

theorem vip_disabled_no_capacity_change:
  "\<not> vip_enabled conf \<Longrightarrow>
     filter is_edit (requests h (on_voice_state_update conf a m before after h)) = []"
  by (simp add: requests_on_voice_state_update filter_requests_forcelimit requests_same)

theorem vip_disabled_witness:
  "\<not> vip_enabled (default_guild\<lparr>vip_member_list := [40], forcelimit_enabled := True\<rparr>)
   \<and> filter is_edit (requests (two_channels 5 [40] 3 [10, 20, 30])
        (on_voice_state_update (default_guild\<lparr>vip_member_list := [40], forcelimit_enabled := True\<rparr>)
           (all_succeed 99) \<lparr>member_id = 40, roles = []\<rparr> (Some 1) (Some 2)
           (two_channels 5 [40] 3 [10, 20, 30]))) = []"
  using vip_disabled_no_capacity_change
          [of "default_guild\<lparr>vip_member_list := [40], forcelimit_enabled := True\<rparr>"
              "two_channels 5 [40] 3 [10, 20, 30]" "all_succeed 99"
              "\<lparr>member_id = 40, roles = []\<rparr>" "Some 1" "Some 2"]
  by (simp add: default_guild_def)

text \<open>
  C6. When the voice state before and after names the same channel (or no channel on both
  sides), the listener sends no request that changes a channel's user limit, for every
  configuration and every VIP list.
\<close>

theorem same_channel_no_capacity_change:
  "filter is_edit (requests h (on_voice_state_update conf a m channel channel h)) = []"
  by (simp add: requests_on_voice_state_update filter_requests_forcelimit vip_check_same
        requests_same)

text \<open>
  C7, as amended. With the VIP module enabled, a member who is on the VIP member list or
  holds a role of the VIP role list, and whose channel changes, makes the listener request
  the user limit of the channel left lowered by one (when that limit is not 0) and then,
  unless the host answered that request with an error, the user limit of the channel entered
  raised by one (when that limit is not 0), in this order and with no other change of a
  limit. When the first request raises, the second is not made. The witness is Scenario C
  (5 and 5 become 4 and 6) and Scenario D (no request for a destination without limit).
\<close>

theorem vip_move_adjusts_capacities:
  assumes "vip_enabled conf"
    and "member_id m \<in> set (vip_member_list conf)
         \<or> (\<exists>role \<in> set (roles m). role \<in> set (vip_role_list conf))"
    and "before \<noteq> after"
  shows "filter is_edit (requests h (on_voice_state_update conf a m before after h)) =
     (case before of
        None \<Rightarrow> []
      | Some x \<Rightarrow> if user_limit h x \<noteq> 0 then [Edit x (user_limit h x - 1)] else []) @
     (if \<exists>x. before = Some x \<and> user_limit h x \<noteq> 0 \<and> edit_error a x \<noteq> None then []
      else case after of
             None \<Rightarrow> []
           | Some y \<Rightarrow> if user_limit h y \<noteq> 0 then [Edit y (user_limit h y + 1)] else [])"
proof -
  have "filter is_edit (requests h (on_voice_state_update conf a m before after h)) =
        filter is_edit (requests h (vip_check conf a m before after h))"
    using assms(1)
    by (simp add: requests_on_voice_state_update filter_requests_forcelimit
          split: prod.splits option.splits)
  also have "\<dots> = requests h (vip_check conf a m before after h)"
    by (auto simp: requests_vip_check split: option.splits)
  also have "\<dots> = (case before of
        None \<Rightarrow> []
      | Some x \<Rightarrow> if user_limit h x \<noteq> 0 then [Edit x (user_limit h x - 1)] else []) @
     (if \<exists>x. before = Some x \<and> user_limit h x \<noteq> 0 \<and> edit_error a x \<noteq> None then []
      else case after of
             None \<Rightarrow> []
           | Some y \<Rightarrow> if user_limit h y \<noteq> 0 then [Edit y (user_limit h y + 1)] else [])"
    using assms(2,3) by (simp add: requests_vip_check)
  finally show ?thesis .
qed

theorem vip_move_witness:
  "filter is_edit (requests (two_channels 5 [] 5 [40])
      (on_voice_state_update (default_guild\<lparr>vip_enabled := True, vip_member_list := [40]\<rparr>)
         (all_succeed 99) \<lparr>member_id = 40, roles = []\<rparr> (Some 1) (Some 2)
         (two_channels 5 [] 5 [40]))) = [Edit 1 4, Edit 2 6]
   \<and> filter is_edit (requests (two_channels 5 [] 0 [40])
      (on_voice_state_update (default_guild\<lparr>vip_enabled := True, vip_role_list := [7]\<rparr>)
         (all_succeed 99) \<lparr>member_id = 40, roles = [8, 7]\<rparr> (Some 1) (Some 2)
         (two_channels 5 [] 0 [40]))) = [Edit 1 4]"
  using vip_move_adjusts_capacities
          [of "default_guild\<lparr>vip_enabled := True, vip_member_list := [40]\<rparr>"
              "\<lparr>member_id = 40, roles = []\<rparr>" "Some 1" "Some 2" "two_channels 5 [] 5 [40]"
              "all_succeed 99"]
        vip_move_adjusts_capacities
          [of "default_guild\<lparr>vip_enabled := True, vip_role_list := [7]\<rparr>"
              "\<lparr>member_id = 40, roles = [8, 7]\<rparr>" "Some 1" "Some 2" "two_channels 5 [] 0 [40]"
              "all_succeed 99"]
  by (simp add: all_succeed_def two_channels_def default_guild_def)

text \<open>
  Scenario C on a host that refuses to edit channel 1: the decrement of channel 1 is
  requested and raises, and the increment of channel 2 (limit 5, not 0) is never requested.
\<close>

theorem vip_move_counterexample:
  "vip_enabled (default_guild\<lparr>vip_enabled := True, vip_member_list := [40]\<rparr>)
   \<and> member_id \<lparr>member_id = 40, roles = []\<rparr>
       \<in> set (vip_member_list (default_guild\<lparr>vip_enabled := True, vip_member_list := [40]\<rparr>))
   \<and> user_limit (two_channels 5 [] 5 [40]) 1 = 5
   \<and> user_limit (two_channels 5 [] 5 [40]) 2 = 5
   \<and> filter is_edit (requests (two_channels 5 [] 5 [40])
      (on_voice_state_update (default_guild\<lparr>vip_enabled := True, vip_member_list := [40]\<rparr>)
         channel_1_forbidden \<lparr>member_id = 40, roles = []\<rparr> (Some 1) (Some 2)
         (two_channels 5 [] 5 [40]))) = [Edit 1 4]
   \<and> fst (on_voice_state_update (default_guild\<lparr>vip_enabled := True, vip_member_list := [40]\<rparr>)
         channel_1_forbidden \<lparr>member_id = 40, roles = []\<rparr> (Some 1) (Some 2)
         (two_channels 5 [] 5 [40])) = Some Forbidden"
  by (simp add: run_defs channel_1_forbidden_def)

subsection \<open>The ForceLimit module\<close>

text \<open>
  C2, as amended. The forced disconnect starts with the request for a temporary channel.
  The ForceLimit check sends it if and only if there is a destination channel whose user
  limit is not 0 and is exceeded by the number of its occupants, and the member is not
  exempted (by identifier, by a role, or by the channel). The listener reaches the check
  if and only if ForceLimit is enabled and the VIP step, when the VIP module is enabled, has
  returned without an error of the host; the check reads the live channel as that step left
  it. The requests other than edits are then exactly one disconnect sequence, which moves
  the member of the event; a member on the ignore list is never disconnected. The witness
  is Scenario A.
\<close>

theorem force_disconnect_iff_over_limit_and_not_exempt:
  "(CreateVoiceChannel \<in> set (requests h (forcelimit_check conf a m before after h)) \<longleftrightarrow>
      (\<exists>channel. after = Some channel
         \<and> user_limit h channel \<noteq> 0
         \<and> int (length (members h channel)) > user_limit h channel
         \<and> member_id m \<notin> set (forcelimit_ignore_member_list conf)
         \<and> \<not> (\<exists>role \<in> set (roles m). role \<in> set (forcelimit_ignore_role_list conf))
         \<and> channel \<notin> set (forcelimit_ignore_vc_list conf)))
   \<and> (CreateVoiceChannel \<in> set (requests h (on_voice_state_update conf a m before after h)) \<longleftrightarrow>
        forcelimit_enabled conf \<and>
        (\<exists>h1 channel.
           (if vip_enabled conf then vip_check conf a m before after h else (None, h)) = (None, h1)
           \<and> after = Some channel
           \<and> user_limit h1 channel \<noteq> 0
           \<and> int (length (members h1 channel)) > user_limit h1 channel
           \<and> member_id m \<notin> set (forcelimit_ignore_member_list conf)
           \<and> \<not> (\<exists>role \<in> set (roles m). role \<in> set (forcelimit_ignore_role_list conf))
           \<and> channel \<notin> set (forcelimit_ignore_vc_list conf)))
   \<and> filter (\<lambda>c. \<not> is_edit c) (requests h (on_voice_state_update conf a m before after h)) =
        (if CreateVoiceChannel \<in> set (requests h (on_voice_state_update conf a m before after h))
         then CreateVoiceChannel #
              (case create_result a of
                 Inl e \<Rightarrow> []
               | Inr vc \<Rightarrow> MoveTo (member_id m) vc #
                           (case move_error a of None \<Rightarrow> [Delete vc] | Some e \<Rightarrow> []))
         else [])
   \<and> (member_id m \<in> set (forcelimit_ignore_member_list conf) \<longrightarrow>
        CreateVoiceChannel \<notin> set (requests h (on_voice_state_update conf a m before after h)))"
proof (intro conjI)
  show "CreateVoiceChannel \<in> set (requests h (on_voice_state_update conf a m before after h)) \<longleftrightarrow>
        forcelimit_enabled conf \<and>
        (\<exists>h1 channel.
           (if vip_enabled conf then vip_check conf a m before after h else (None, h)) = (None, h1)
           \<and> after = Some channel
           \<and> user_limit h1 channel \<noteq> 0
           \<and> int (length (members h1 channel)) > user_limit h1 channel
           \<and> member_id m \<notin> set (forcelimit_ignore_member_list conf)
           \<and> \<not> (\<exists>role \<in> set (roles m). role \<in> set (forcelimit_ignore_role_list conf))
           \<and> channel \<notin> set (forcelimit_ignore_vc_list conf))"
    unfolding create_in_handler_iff create_in_forcelimit_iff by blast
  then show "member_id m \<in> set (forcelimit_ignore_member_list conf) \<longrightarrow>
        CreateVoiceChannel \<notin> set (requests h (on_voice_state_update conf a m before after h))"
    by blast
qed (rule create_in_forcelimit_iff, rule not_edit_handler)

theorem force_disconnect_witness:
  "CreateVoiceChannel \<in> set (requests (two_channels 0 [] 3 [10, 20, 30, 40])
      (on_voice_state_update (default_guild\<lparr>forcelimit_enabled := True\<rparr>) (all_succeed 99)
         \<lparr>member_id = 40, roles = []\<rparr> None (Some 2) (two_channels 0 [] 3 [10, 20, 30, 40])))
   \<and> filter (\<lambda>c. \<not> is_edit c) (requests (two_channels 0 [] 3 [10, 20, 30, 40])
      (on_voice_state_update (default_guild\<lparr>forcelimit_enabled := True\<rparr>) (all_succeed 99)
         \<lparr>member_id = 40, roles = []\<rparr> None (Some 2) (two_channels 0 [] 3 [10, 20, 30, 40])))
       = [CreateVoiceChannel, MoveTo 40 99, Delete 99]
   \<and> CreateVoiceChannel \<notin> set (requests (two_channels 0 [] 3 [10, 20, 30, 40])
      (on_voice_state_update
         (default_guild\<lparr>forcelimit_enabled := True, forcelimit_ignore_member_list := [40]\<rparr>)
         (all_succeed 99)
         \<lparr>member_id = 40, roles = []\<rparr> None (Some 2) (two_channels 0 [] 3 [10, 20, 30, 40])))"
  using force_disconnect_iff_over_limit_and_not_exempt
          [of "two_channels 0 [] 3 [10, 20, 30, 40]" "default_guild\<lparr>forcelimit_enabled := True\<rparr>"
              "all_succeed 99" "\<lparr>member_id = 40, roles = []\<rparr>" None "Some 2"]
        force_disconnect_iff_over_limit_and_not_exempt
          [of "two_channels 0 [] 3 [10, 20, 30, 40]"
              "default_guild\<lparr>forcelimit_enabled := True, forcelimit_ignore_member_list := [40]\<rparr>"
              "all_succeed 99" "\<lparr>member_id = 40, roles = []\<rparr>" None "Some 2"]
  by (simp add: all_succeed_def two_channels_def default_guild_def)

text \<open>
  ForceLimit is enabled, channel 2 has the limit 3 and four occupants, and nobody is
  exempted; but the member is a VIP who comes from channel 1, and the host refuses to edit
  channel 1: the listener ends with that error and no disconnect is started.
\<close>

theorem force_disconnect_counterexample:
  "forcelimit_enabled
      (default_guild\<lparr>forcelimit_enabled := True, vip_enabled := True, vip_member_list := [40]\<rparr>)
   \<and> user_limit (two_channels 5 [] 3 [10, 20, 30, 40]) 2 = 3
   \<and> length (members (two_channels 5 [] 3 [10, 20, 30, 40]) 2) = 4
   \<and> forcelimit_ignore_member_list
        (default_guild\<lparr>forcelimit_enabled := True, vip_enabled := True, vip_member_list := [40]\<rparr>)
       = []
   \<and> forcelimit_ignore_role_list
        (default_guild\<lparr>forcelimit_enabled := True, vip_enabled := True, vip_member_list := [40]\<rparr>)
       = []
   \<and> forcelimit_ignore_vc_list
        (default_guild\<lparr>forcelimit_enabled := True, vip_enabled := True, vip_member_list := [40]\<rparr>)
       = []
   \<and> requests (two_channels 5 [] 3 [10, 20, 30, 40])
        (on_voice_state_update
           (default_guild\<lparr>forcelimit_enabled := True, vip_enabled := True, vip_member_list := [40]\<rparr>)
           channel_1_forbidden \<lparr>member_id = 40, roles = []\<rparr> (Some 1) (Some 2)
           (two_channels 5 [] 3 [10, 20, 30, 40])) = [Edit 1 4]
   \<and> CreateVoiceChannel \<notin> set (requests (two_channels 5 [] 3 [10, 20, 30, 40])
        (on_voice_state_update
           (default_guild\<lparr>forcelimit_enabled := True, vip_enabled := True, vip_member_list := [40]\<rparr>)
           channel_1_forbidden \<lparr>member_id = 40, roles = []\<rparr> (Some 1) (Some 2)
           (two_channels 5 [] 3 [10, 20, 30, 40])))"
  by (simp add: run_defs channel_1_forbidden_def)

subsection \<open>The temporary channel\<close>

lemma forcelimit_check_temporary_channel:
  assumes "create_result a = Inr vc"
    and "CreateVoiceChannel \<in> set (requests h (forcelimit_check conf a m before after h))"
  shows "(Delete vc \<in> set (requests h (forcelimit_check conf a m before after h))
            \<longleftrightarrow> move_error a = None)
       \<and> (\<forall>e. move_error a = Some e \<longrightarrow>
             fst (forcelimit_check conf a m before after h) = Some e
             \<and> vc \<in> guild_channels (snd (forcelimit_check conf a m before after h)))
       \<and> (move_error a = None \<and> delete_error a = None \<longrightarrow>
             fst (forcelimit_check conf a m before after h) = None
             \<and> vc \<notin> guild_channels (snd (forcelimit_check conf a m before after h)))"
proof -
  from assms(2) obtain channel where c: "after = Some channel"
      "user_limit h channel \<noteq> 0" "int (length (members h channel)) > user_limit h channel"
      "member_id m \<notin> set (forcelimit_ignore_member_list conf)"
      "\<not> (\<exists>role \<in> set (roles m). role \<in> set (forcelimit_ignore_role_list conf))"
      "channel \<notin> set (forcelimit_ignore_vc_list conf)"
    unfolding create_in_forcelimit_iff by blast
  have r: "requests h (forcelimit_check conf a m before after h) =
      CreateVoiceChannel # MoveTo (member_id m) vc #
        (case move_error a of None \<Rightarrow> [Delete vc] | Some e \<Rightarrow> [])"
    using c assms(1) by (simp add: requests_forcelimit_check)
  have f: "forcelimit_check conf a m before after h =
      (case create_voice_channel a h of
         (Inl e, h1) \<Rightarrow> (Some e, h1)
       | (Inr vc, h1) \<Rightarrow> and_then (move_to a m vc h1) (delete a vc))"
    using c by (simp add: forcelimit_check_def list_ex_iff)
  show ?thesis
    unfolding r unfolding f using assms(1)
    by (auto simp: create_voice_channel_def move_to_def delete_def and_then_def Let_def
             split: option.splits)
qed

text \<open>
  C1, as amended. Once the temporary channel has been created, its deletion is requested
  if and only if the move of the member succeeded; when the delete succeeds too, the
  listener returns normally and the channel is gone. When the move fails, the listener
  raises that error and the temporary channel still exists on the guild.
\<close>

theorem temporary_channel_deleted_iff_moved:
  assumes "create_result a = Inr vc"
    and "CreateVoiceChannel \<in> set (requests h (on_voice_state_update conf a m before after h))"
  shows "(Delete vc \<in> set (requests h (on_voice_state_update conf a m before after h))
            \<longleftrightarrow> move_error a = None)
       \<and> (\<forall>e. move_error a = Some e \<longrightarrow>
             fst (on_voice_state_update conf a m before after h) = Some e
             \<and> vc \<in> guild_channels (snd (on_voice_state_update conf a m before after h)))
       \<and> (move_error a = None \<and> delete_error a = None \<longrightarrow>
             fst (on_voice_state_update conf a m before after h) = None
             \<and> vc \<notin> guild_channels (snd (on_voice_state_update conf a m before after h)))"
proof -
  from assms(2) obtain h1 where
    v: "(if vip_enabled conf then vip_check conf a m before after h else (None, h)) = (None, h1)"
    and en: "forcelimit_enabled conf"
    and cr: "CreateVoiceChannel \<in> set (requests h1 (forcelimit_check conf a m before after h1))"
    unfolding create_in_handler_iff by blast
  have run: "on_voice_state_update conf a m before after h =
             forcelimit_check conf a m before after h1"
    using v en by (simp add: on_voice_state_update_def and_then_def)
  have "Delete vc \<notin> set (requests h (None, h1))"
    using v requests_vip_check [of h conf a m before after]
    by (auto simp: requests_same split: if_splits option.splits)
  then have del: "Delete vc \<in> set (requests h (on_voice_state_update conf a m before after h))
      \<longleftrightarrow> Delete vc \<in> set (requests h1 (forcelimit_check conf a m before after h1))"
    using v en by (simp add: requests_on_voice_state_update)
  show ?thesis
    unfolding del unfolding run
    by (rule forcelimit_check_temporary_channel [OF assms(1) cr])
qed

theorem temporary_channel_witness:
  "fst (on_voice_state_update (default_guild\<lparr>forcelimit_enabled := True\<rparr>) (all_succeed 99)
         \<lparr>member_id = 40, roles = []\<rparr> None (Some 2) (two_channels 0 [] 3 [10, 20, 30, 40])) = None
   \<and> Delete 99 \<in> set (requests (two_channels 0 [] 3 [10, 20, 30, 40])
        (on_voice_state_update (default_guild\<lparr>forcelimit_enabled := True\<rparr>) (all_succeed 99)
         \<lparr>member_id = 40, roles = []\<rparr> None (Some 2) (two_channels 0 [] 3 [10, 20, 30, 40])))
   \<and> 99 \<notin> guild_channels (snd (on_voice_state_update (default_guild\<lparr>forcelimit_enabled := True\<rparr>)
         (all_succeed 99)
         \<lparr>member_id = 40, roles = []\<rparr> None (Some 2) (two_channels 0 [] 3 [10, 20, 30, 40])))"
proof -
  have c: "create_result (all_succeed 99) = Inr 99"
    by (simp add: all_succeed_def)
  have r: "CreateVoiceChannel \<in> set (requests (two_channels 0 [] 3 [10, 20, 30, 40])
        (on_voice_state_update (default_guild\<lparr>forcelimit_enabled := True\<rparr>) (all_succeed 99)
         \<lparr>member_id = 40, roles = []\<rparr> None (Some 2) (two_channels 0 [] 3 [10, 20, 30, 40])))"
    by (simp add: run_defs)
  show ?thesis
    using temporary_channel_deleted_iff_moved [OF c r] by (simp add: all_succeed_def)
qed

text \<open>
  The temporary channel 99 is created, the move fails, and the run ends with the error:
  no delete was requested and the channel is still there.
\<close>

theorem temporary_channel_counterexample:
  "fst (on_voice_state_update (default_guild\<lparr>forcelimit_enabled := True\<rparr>)
         ((all_succeed 99)\<lparr>move_error := Some HTTPException\<rparr>)
         \<lparr>member_id = 40, roles = []\<rparr> None (Some 2) (two_channels 0 [] 3 [10, 20, 30, 40]))
     = Some HTTPException
   \<and> calls (snd (on_voice_state_update (default_guild\<lparr>forcelimit_enabled := True\<rparr>)
         ((all_succeed 99)\<lparr>move_error := Some HTTPException\<rparr>)
         \<lparr>member_id = 40, roles = []\<rparr> None (Some 2) (two_channels 0 [] 3 [10, 20, 30, 40])))
     = [CreateVoiceChannel, MoveTo 40 99]
   \<and> 99 \<in> guild_channels (snd (on_voice_state_update (default_guild\<lparr>forcelimit_enabled := True\<rparr>)
         ((all_succeed 99)\<lparr>move_error := Some HTTPException\<rparr>)
         \<lparr>member_id = 40, roles = []\<rparr> None (Some 2) (two_channels 0 [] 3 [10, 20, 30, 40])))"
  by (simp add: run_defs)

subsection \<open>Errors of the host\<close>

lemma fst_forcelimit_check:
  "fst (forcelimit_check conf a m before after h) =
     (if requests h (forcelimit_check conf a m before after h) = [] then None
      else answer_of a (last (requests h (forcelimit_check conf a m before after h))))"
  unfolding requests_forcelimit_check
  by (simp add: forcelimit_check_def create_voice_channel_def move_to_def delete_def
        and_then_def Let_def list_ex_iff split: option.splits sum.splits)

lemma butlast_forcelimit_check:
  "c \<in> set (butlast (requests h (forcelimit_check conf a m before after h))) \<Longrightarrow>
   answer_of a c = None"
  unfolding requests_forcelimit_check
  by (auto split: option.splits sum.splits if_splits)

lemma fst_vip_check:
  "fst (vip_check conf a m before after h) =
     (if requests h (vip_check conf a m before after h) = [] then None
      else answer_of a (last (requests h (vip_check conf a m before after h))))"
  unfolding requests_vip_check
  by (auto simp: vip_check_def edit_def and_then_def Let_def filter_empty_conv
           split: option.splits)

lemma butlast_vip_check:
  "c \<in> set (butlast (requests h (vip_check conf a m before after h))) \<Longrightarrow>
   answer_of a c = None"
  unfolding requests_vip_check
  by (auto split: option.splits if_splits)

lemma all_answered:
  assumes "(if rs = [] then None else f (last rs)) = (None :: error option)"
    and "\<forall>c \<in> set (butlast rs). f c = None"
  shows "\<forall>c \<in> set rs. f c = None"
  using assms by (cases rs rule: rev_cases) auto

lemma seq_outcome:
  assumes "\<forall>c \<in> set rs1. f c = (None :: error option)"
    and "e2 = (if rs2 = [] then None else f (last rs2))"
    and "\<forall>c \<in> set (butlast rs2). f c = None"
  shows "e2 = (if rs1 @ rs2 = [] then None else f (last (rs1 @ rs2)))
       \<and> (\<forall>c \<in> set (butlast (rs1 @ rs2)). f c = None)"
proof (cases "rs2 = []")
  case True
  then show ?thesis using assms(1,2) by (auto dest: in_set_butlastD)
next
  case False
  then show ?thesis using assms by (auto simp: butlast_append)
qed

lemma forcelimit_stage_outcome:
  "fst (if forcelimit_enabled conf then forcelimit_check conf a m before after h else (None, h)) =
     (if requests h (if forcelimit_enabled conf then forcelimit_check conf a m before after h
                     else (None, h)) = [] then None
      else answer_of a (last (requests h (if forcelimit_enabled conf
             then forcelimit_check conf a m before after h else (None, h)))))
   \<and> (\<forall>c \<in> set (butlast (requests h (if forcelimit_enabled conf
             then forcelimit_check conf a m before after h else (None, h)))).
          answer_of a c = None)"
proof (cases "forcelimit_enabled conf")
  case True
  show ?thesis
    unfolding if_P [OF True]
    using fst_forcelimit_check [of conf a m before after h] butlast_forcelimit_check
    by blast
next
  case False
  then show ?thesis by (simp add: requests_same)
qed

lemma host_error_outcome:
  "fst (on_voice_state_update conf a m before after h) =
     (if requests h (on_voice_state_update conf a m before after h) = [] then None
      else answer_of a (last (requests h (on_voice_state_update conf a m before after h))))
   \<and> (\<forall>c \<in> set (butlast (requests h (on_voice_state_update conf a m before after h))).
        answer_of a c = None)"
proof (cases "vip_enabled conf")
  case False
  then have run: "on_voice_state_update conf a m before after h =
      (if forcelimit_enabled conf then forcelimit_check conf a m before after h else (None, h))"
    by (simp add: on_voice_state_update_def and_then_def)
  show ?thesis
    unfolding run by (rule forcelimit_stage_outcome)
next
  case True
  obtain e h1 where v: "vip_check conf a m before after h = (e, h1)"
    by (cases "vip_check conf a m before after h")
  show ?thesis
  proof (cases e)
    case (Some x)
    have run: "on_voice_state_update conf a m before after h = vip_check conf a m before after h"
      using True v Some by (simp add: on_voice_state_update_def and_then_def)
    show ?thesis
      unfolding run
      using fst_vip_check [of conf a m before after h] butlast_vip_check
      by blast
  next
    case None
    define F where "F = (if forcelimit_enabled conf then forcelimit_check conf a m before after h1
              else (None, h1))"
    define rs1 where "rs1 = requests h (vip_check conf a m before after h)"
    define rs2 where "rs2 = requests h1 F"
    have run: "on_voice_state_update conf a m before after h = F"
      using True v None by (simp add: on_voice_state_update_def and_then_def F_def)
    have rq: "requests h (on_voice_state_update conf a m before after h) = rs1 @ rs2"
      unfolding requests_on_voice_state_update rs1_def rs2_def F_def
      using True v None by (simp add: requests_same)
    have fv: "fst (vip_check conf a m before after h) = None"
      using v None by simp
    have "(if rs1 = [] then None else answer_of a (last rs1)) =
          fst (vip_check conf a m before after h)"
      unfolding rs1_def by (rule fst_vip_check [symmetric])
    then have "(if rs1 = [] then None else answer_of a (last rs1)) = None"
      unfolding fv .
    moreover have "\<forall>c \<in> set (butlast rs1). answer_of a c = None"
      unfolding rs1_def using butlast_vip_check by blast
    ultimately have a1: "\<forall>c \<in> set rs1. answer_of a c = None"
      by (rule all_answered)
    have f: "fst F = (if rs2 = [] then None else answer_of a (last rs2))
         \<and> (\<forall>c \<in> set (butlast rs2). answer_of a c = None)"
      unfolding rs2_def F_def by (rule forcelimit_stage_outcome)
    have "fst F = (if rs1 @ rs2 = [] then None else answer_of a (last (rs1 @ rs2)))
       \<and> (\<forall>c \<in> set (butlast (rs1 @ rs2)). answer_of a c = None)"
      using a1 f by (intro seq_outcome) simp_all
    then show ?thesis
      unfolding rq unfolding run .
  qed
qed

lemma snd_forcelimit_check:
  "snd (forcelimit_check conf a m before after h) =
     fold (perform a) (requests h (forcelimit_check conf a m before after h)) h"
  unfolding requests_forcelimit_check
  by (simp add: forcelimit_check_def create_voice_channel_def move_to_def delete_def
        and_then_def Let_def list_ex_iff split: option.splits sum.splits)

lemma snd_vip_check:
  "snd (vip_check conf a m before after h) =
     fold (perform a) (requests h (vip_check conf a m before after h)) h"
  unfolding requests_vip_check
  by (auto simp: vip_check_def edit_def and_then_def Let_def filter_empty_conv
           split: option.splits)

lemma snd_forcelimit_stage:
  "snd (if forcelimit_enabled conf then forcelimit_check conf a m before after h else (None, h)) =
     fold (perform a)
       (requests h (if forcelimit_enabled conf then forcelimit_check conf a m before after h
                    else (None, h))) h"
  by (simp add: snd_forcelimit_check requests_same)

lemma snd_on_voice_state_update:
  "snd (on_voice_state_update conf a m before after h) =
     fold (perform a) (requests h (on_voice_state_update conf a m before after h)) h"
proof (cases "vip_enabled conf")
  case False
  then have run: "on_voice_state_update conf a m before after h =
      (if forcelimit_enabled conf then forcelimit_check conf a m before after h else (None, h))"
    by (simp add: on_voice_state_update_def and_then_def)
  show ?thesis
    unfolding run by (rule snd_forcelimit_stage)
next
  case True
  obtain e h1 where v: "vip_check conf a m before after h = (e, h1)"
    by (cases "vip_check conf a m before after h")
  have h1: "h1 = fold (perform a) (requests h (vip_check conf a m before after h)) h"
    using snd_vip_check [of conf a m before after h] v by simp
  show ?thesis
  proof (cases e)
    case (Some x)
    have run: "on_voice_state_update conf a m before after h = vip_check conf a m before after h"
      using True v Some by (simp add: on_voice_state_update_def and_then_def)
    show ?thesis
      unfolding run by (rule snd_vip_check)
  next
    case None
    define F where "F = (if forcelimit_enabled conf then forcelimit_check conf a m before after h1
              else (None, h1))"
    define rs1 where "rs1 = requests h (vip_check conf a m before after h)"
    have run: "on_voice_state_update conf a m before after h = F"
      using True v None by (simp add: on_voice_state_update_def and_then_def F_def)
    have rq: "requests h (on_voice_state_update conf a m before after h) = rs1 @ requests h1 F"
      unfolding requests_on_voice_state_update rs1_def F_def
      using True v None by (simp add: requests_same)
    have "snd F = fold (perform a) (requests h1 F) h1"
      unfolding F_def by (rule snd_forcelimit_stage)
    also have "\<dots> = fold (perform a) (rs1 @ requests h1 F) h"
      using h1 by (simp add: rs1_def)
    finally show ?thesis
      unfolding rq unfolding run .
  qed
qed

text \<open>
  C4, as amended. The listener raises exactly when a request to the host raises: its
  outcome is the host's answer to the last request it made (no error when it made none),
  and every earlier request of the event was answered without error. So an error of the
  host ends the evaluation of the event at that request and is raised to the caller of the
  listener. The host is left as the requests made have left it, one after the other: what
  the requests before the failing one did stays done, nothing is undone.
\<close>

theorem host_error_propagates:
  "fst (on_voice_state_update conf a m before after h) =
     (if requests h (on_voice_state_update conf a m before after h) = [] then None
      else answer_of a (last (requests h (on_voice_state_update conf a m before after h))))
   \<and> (\<forall>c \<in> set (butlast (requests h (on_voice_state_update conf a m before after h))).
        answer_of a c = None)
   \<and> snd (on_voice_state_update conf a m before after h) =
       fold (perform a) (requests h (on_voice_state_update conf a m before after h)) h"
  using host_error_outcome [of conf a m before after h]
        snd_on_voice_state_update [of conf a m before after h]
  by blast

theorem host_error_propagates_witness:
  "fst (on_voice_state_update
          (default_guild\<lparr>vip_enabled := True, vip_member_list := [40], forcelimit_enabled := True\<rparr>)
          channel_2_vanished
          \<lparr>member_id = 40, roles = []\<rparr> (Some 1) (Some 2) (two_channels 5 [] 5 [40]))
     = answer_of channel_2_vanished (Edit 2 6)
   \<and> answer_of channel_2_vanished (Edit 1 4) = None
   \<and> snd (on_voice_state_update
          (default_guild\<lparr>vip_enabled := True, vip_member_list := [40], forcelimit_enabled := True\<rparr>)
          channel_2_vanished
          \<lparr>member_id = 40, roles = []\<rparr> (Some 1) (Some 2) (two_channels 5 [] 5 [40]))
     = perform channel_2_vanished (Edit 2 6)
         (perform channel_2_vanished (Edit 1 4) (two_channels 5 [] 5 [40]))"
proof -
  have r: "requests (two_channels 5 [] 5 [40]) (on_voice_state_update
          (default_guild\<lparr>vip_enabled := True, vip_member_list := [40], forcelimit_enabled := True\<rparr>)
          channel_2_vanished
          \<lparr>member_id = 40, roles = []\<rparr> (Some 1) (Some 2) (two_channels 5 [] 5 [40]))
        = [Edit 1 4, Edit 2 6]"
    by (simp add: run_defs channel_2_vanished_def)
  show ?thesis
    using host_error_propagates
          [of "default_guild\<lparr>vip_enabled := True, vip_member_list := [40], forcelimit_enabled := True\<rparr>"
              channel_2_vanished
              "\<lparr>member_id = 40, roles = []\<rparr>" "Some 1" "Some 2" "two_channels 5 [] 5 [40]"]
    unfolding r by simp
qed

text \<open>
  A VIP moves from channel 1 to channel 2, and channel 2 has vanished: the listener raises
  \<open>NotFound\<close> after it has lowered the limit of channel 1, and ForceLimit is not evaluated.
\<close>

theorem host_error_counterexample:
  "fst (on_voice_state_update
          (default_guild\<lparr>vip_enabled := True, vip_member_list := [40], forcelimit_enabled := True\<rparr>)
          channel_2_vanished
          \<lparr>member_id = 40, roles = []\<rparr> (Some 1) (Some 2) (two_channels 5 [] 5 [40]))
     = Some NotFound
   \<and> calls (snd (on_voice_state_update
          (default_guild\<lparr>vip_enabled := True, vip_member_list := [40], forcelimit_enabled := True\<rparr>)
          channel_2_vanished
          \<lparr>member_id = 40, roles = []\<rparr> (Some 1) (Some 2) (two_channels 5 [] 5 [40])))
     = [Edit 1 4, Edit 2 6]
   \<and> user_limit (snd (on_voice_state_update
          (default_guild\<lparr>vip_enabled := True, vip_member_list := [40], forcelimit_enabled := True\<rparr>)
          channel_2_vanished
          \<lparr>member_id = 40, roles = []\<rparr> (Some 1) (Some 2) (two_channels 5 [] 5 [40]))) 1 = 4"
  by (simp add: run_defs channel_2_vanished_def)

section \<open>Properties of the listing commands\<close>

text \<open>
  With a pager that returns no page for the empty text, empty lists give the single
  message; when every identifier is found and some field has a page, the command opens a
  menu with as many embeds as the longest field has pages.
\<close>

lemma listing_of_empty_lists:
  assumes "pagify [] 1024 = []"
    and "forcelimit_ignore_member_list conf = []" "forcelimit_ignore_role_list conf = []"
        "forcelimit_ignore_vc_list conf = []"
  shows "forcelimit_ignorelist pagify g conf = Inr (Send ''Ignore list is empty'')"
  using assms by (simp add: forcelimit_ignorelist_def)

lemma vip_listing_of_empty_lists:
  assumes "pagify [] 1024 = []" and "vip_member_list conf = []" "vip_role_list conf = []"
  shows "vip_list pagify g conf = Inr (Send ''VIP list is empty'')"
  using assms by (simp add: vip_list_def)

lemma listing_of_resolved_lists:
  assumes "mentions (get_member g) (forcelimit_ignore_member_list conf) = Inr ms"
    and "mentions (get_role g) (forcelimit_ignore_role_list conf) = Inr rs"
    and "mentions (get_channel g) (forcelimit_ignore_vc_list conf) = Inr vs"
    and "pagify (join '', '' ms) 1024 \<noteq> [] \<or> pagify (join '', '' rs) 1024 \<noteq> []
         \<or> pagify (join '', '' vs) 1024 \<noteq> []"
  shows "\<exists>embeds. forcelimit_ignorelist pagify g conf = Inr (Menu embeds)
           \<and> length embeds = max (length (pagify (join '', '' ms) 1024))
                               (max (length (pagify (join '', '' rs) 1024))
                                    (length (pagify (join '', '' vs) 1024)))"
proof -
  define pm where "pm = pagify (join '', '' ms) 1024"
  define pr where "pr = pagify (join '', '' rs) 1024"
  define pv where "pv = pagify (join '', '' vs) 1024"
  have ne: "\<not> (length pm = length pr \<and> length pr = length pv \<and> length pv = 0)"
    using assms(4) by (auto simp: pm_def pr_def pv_def)
  have len: "length (zip_longest3 ''None'' pm pr pv) = max (length pm) (max (length pr) (length pv))"
    by (simp add: zip_longest3_def)
  have "forcelimit_ignorelist pagify g conf =
      Inr (Menu (map (\<lambda>(idx, page).
                      \<lparr>title = ''Ignore List'',
                       embed_fields = [(''Members'', fst page), (''Roles'', fst (snd page)),
                                 (''Voice channels'', snd (snd page))],
                       footer = (idx, length (zip_longest3 ''None'' pm pr pv))\<rparr>)
                    (zip [1 ..< Suc (length (zip_longest3 ''None'' pm pr pv))]
                         (zip_longest3 ''None'' pm pr pv))))"
    using assms(1-3) ne
    by (simp add: forcelimit_ignorelist_def Let_def pm_def pr_def pv_def)
  then have "\<exists>embeds. forcelimit_ignorelist pagify g conf = Inr (Menu embeds)
           \<and> length embeds = max (length pm) (max (length pr) (length pv))"
    by (simp add: len del: upt_Suc)
  then show ?thesis
    unfolding pm_def pr_def pv_def .
qed

lemma sample_listing:
  "forcelimit_ignorelist one_page small_guild
     (default_guild\<lparr>forcelimit_ignore_member_list := [10], forcelimit_ignore_vc_list := [30]\<rparr>) =
   Inr (Menu [\<lparr>title = ''Ignore List'',
               embed_fields = [(''Members'', ''<@10>''), (''Roles'', ''None''),
                         (''Voice channels'', ''<#30>'')],
               footer = (1, 1)\<rparr>])"
  by (simp add: forcelimit_ignorelist_def small_guild_def default_guild_def one_page_def
        zip_longest3_def nth_or_def)

text \<open>
  C9. A list that is not empty should be shown as pages. The ignore list of the guild holds
  member 10 and member 40, and member 40 has left the guild (the VIP role list holds the
  deleted role 21): the lookup returns \<open>None\<close> and the command raises
  \<open>AttributeError\<close>, whatever the pager is; it shows no page and sends no message.
\<close>

theorem listing_fails_on_unresolved_identifier:
  "forcelimit_ignorelist pagify small_guild
     (default_guild\<lparr>forcelimit_ignore_member_list := [10, 40]\<rparr>) = Inl AttributeError
   \<and> vip_list pagify small_guild (default_guild\<lparr>vip_role_list := [21]\<rparr>) = Inl AttributeError"
  by (simp add: forcelimit_ignorelist_def vip_list_def small_guild_def default_guild_def)

end
